theory Spec2Isabelle
  imports Complex_Main "HOL-Library.Word" "HOL-Library.Sublist"
begin

section \<open>Python and numpy primitives used by the sources\<close>

text \<open>
  Exceptions of the Python sources are values. None of the modelled functions defines an
  exception class of its own: every failure is one of the built-in exceptions of Python
  or numpy, named here as Python names them; \<open>ValueError\<close> and \<open>AssertionError\<close> carry
  their message.
\<close>

datatype pyerr =
    UnboundLocalError
  | ValueError string
  | IndexError
  | TypeError
  | AssertionError string
  | LinAlgError
  | OverflowError

text \<open>\<^verbatim>\<open>np.roll(xs, s)\<close>: element \<open>j\<close> of the result is element \<open>(j - s) mod n\<close> of \<open>xs\<close>.\<close>

definition np_roll :: "'a list \<Rightarrow> int \<Rightarrow> 'a list" where
  "np_roll xs s = map (\<lambda>j. xs ! nat ((int j - s) mod int (length xs))) [0..<length xs]"

text \<open>\<^verbatim>\<open>np.diff(rows, n=1, axis=0)\<close> on a 2-D array given as its list of rows.\<close>

definition np_diff_axis0 :: "int list list \<Rightarrow> int list list" where
  "np_diff_axis0 rows = map (\<lambda>(r, r'). map (\<lambda>(a, b). b - a) (zip r r')) (zip rows (tl rows))"

text \<open>\<^verbatim>\<open>np.all(rows, axis=0)\<close> on a 2-D boolean array with \<open>n\<close> columns.\<close>

definition np_all_axis0 :: "nat \<Rightarrow> bool list list \<Rightarrow> bool list" where
  "np_all_axis0 n rows = map (\<lambda>j. list_all (\<lambda>r. r ! j) rows) [0..<n]"

text \<open>
  The Python slice \<^verbatim>\<open>xs[start:stop]\<close>: a negative bound counts from the end, and bounds
  outside the list are clamped, so a slice never raises.
\<close>

definition py_slice :: "'a list \<Rightarrow> int \<Rightarrow> int \<Rightarrow> 'a list" where
  "py_slice xs start stop =
     (let n = int (length xs);
          a = (if start < 0 then max (n + start) 0 else min start n);
          b = (if stop < 0 then max (n + stop) 0 else min stop n)
      in take (nat b - nat a) (drop (nat a) xs))"

text \<open>
  Boolean-mask indexing \<^verbatim>\<open>xs[flags]\<close> of a 1-D array: the mask must be as long as the
  array (numpy raises IndexError otherwise); the selected elements keep their order.
\<close>

definition mask_select :: "'a list \<Rightarrow> bool list \<Rightarrow> pyerr + 'a list" where
  "mask_select xs flags =
     (if length flags = length xs then Inr (map fst (filter snd (zip xs flags)))
      else Inl IndexError)"

text \<open>Python's built-in \<^verbatim>\<open>max(xs)\<close> raises ValueError on an empty sequence.\<close>

definition py_max :: "real list \<Rightarrow> pyerr + real" where
  "py_max xs =
     (case xs of
        [] \<Rightarrow> Inl (ValueError ''max() arg is an empty sequence'')
      | x # ys \<Rightarrow> Inr (fold max ys x))"

text \<open>
  The test \<^verbatim>\<open>s in t\<close> of Python: membership when \<open>t\<close> is a tuple of strings, and the
  substring test when \<open>t\<close> is itself a string.
\<close>

definition in_tuple :: "string \<Rightarrow> string list \<Rightarrow> bool" where
  "in_tuple s t = (s \<in> set t)"

definition in_str :: "string \<Rightarrow> string \<Rightarrow> bool" where
  "in_str s t = sublist s t"

section \<open>The valley finder and the shadow labelers\<close>

text \<open>
  \<^verbatim>\<open>findValley(values, base, neighbors)\<close> of \<^verbatim>\<open>preprocessing/shadow_geometry.py\<close>.
  \<open>wallP\<close> stacks the counts rolled by \<open>+1, \<dots>, +neighbors\<close>, \<open>wallM\<close> the counts rolled
  by \<open>-1, \<dots>, -neighbors\<close>. \<open>concavP\<close> and \<open>concavM\<close> are only assigned under
  \<^verbatim>\<open>if neighbors > 1\<close>, so with fewer neighbours the next statement reads an unassigned
  local variable.
\<close>

definition findValley :: "int list \<Rightarrow> 'a list \<Rightarrow> nat \<Rightarrow> pyerr + 'a list" where
  "findValley values base neighbors =
     (if \<not> neighbors > 1 then Inl UnboundLocalError
      else
        let wallP = map (\<lambda>i. np_roll values (int i + 1)) [0..<neighbors];
            wallM = map (\<lambda>i. np_roll values (- (int i + 1))) [0..<neighbors];
            concavP = np_all_axis0 (length values)
                        (map (map (\<lambda>d. sgn d = 1)) (np_diff_axis0 wallP));
            concavM = np_all_axis0 (length values)
                        (map (map (\<lambda>d. sgn d = 1)) (np_diff_axis0 wallM));
            selec = map (\<lambda>(p, m). p \<and> m) (zip concavP concavM);
            selec' = py_slice selec (int neighbors - 1) (- (int neighbors + 1));
            idx = py_slice base (int neighbors - 1) (- (int neighbors + 2))
        in mask_select idx selec')"

text \<open>
  The two statements that \<^verbatim>\<open>getShadowPolygon\<close> (lines 46 and 47) and \<^verbatim>\<open>sturge\<close>
  (lines 82 and 83) share: \<^verbatim>\<open>dips = findValley(values, base, 2); val = max(dips)\<close>.
\<close>

definition valley_threshold :: "int list \<Rightarrow> real list \<Rightarrow> pyerr + real" where
  "valley_threshold values base =
     (case findValley values base 2 of
        Inl e \<Rightarrow> Inl e
      | Inr dips \<Rightarrow> py_max dips)"

text \<open>
  \<^verbatim>\<open>sturge(M)\<close>. The image is its list of rows. \<^verbatim>\<open>np.histogram\<close> and
  \<^verbatim>\<open>measure.label\<close> are library calls and enter as the parameters \<open>histogram\<close> and
  \<open>label\<close>. \<^verbatim>\<open>math.log2\<close> raises ValueError on an image without pixels.
\<close>

definition sturge ::
  "(real list \<Rightarrow> int \<Rightarrow> int list \<times> real list) \<Rightarrow> (bool list list \<Rightarrow> int list list) \<Rightarrow>
   real list list \<Rightarrow> pyerr + int list list" where
  "sturge histogram label M =
     (let mn = length (concat M) in
      if mn = 0 then Inl (ValueError ''math domain error'')
      else
        let sturge = 1.6 * (log 2 (real mn) + 1);
            (values, base) = histogram (concat M) \<lceil>sturge\<rceil>
        in case valley_threshold values base of
             Inl e \<Rightarrow> Inl e
           | Inr val \<Rightarrow>
               let imSeparation = map (map (\<lambda>v. v > val)) M
               in Inr (label imSeparation))"

text \<open>
  \<^verbatim>\<open>getShadowPolygon(M, sizPix, thres)\<close>: the superpixel segmentation
  (\<^verbatim>\<open>segmentation.slic\<close>) and the per-superpixel mean image (\<^verbatim>\<open>color.label2rgb\<close>)
  are library calls and enter as \<open>slic\<close> and \<open>label2rgb\<close>. \<open>sizPix\<close> is a window size;
  with \<open>sizPix = 0\<close> the quotient \<open>mn\<close> is numpy's infinity, which \<^verbatim>\<open>np.int\<close> refuses
  (OverflowError), and an image without pixels gives \<open>mn = 0\<close>, which \<^verbatim>\<open>math.log2\<close>
  refuses. The parameter \<open>thres\<close> is not read by the source.
\<close>

definition getShadowPolygon ::
  "(real list list \<Rightarrow> int \<Rightarrow> int list list) \<Rightarrow>
   (int list list \<Rightarrow> real list list \<Rightarrow> real list list) \<Rightarrow>
   (real list \<Rightarrow> int \<Rightarrow> int list \<times> real list) \<Rightarrow> (bool list list \<Rightarrow> int list list) \<Rightarrow>
   real list list \<Rightarrow> nat \<Rightarrow> real \<Rightarrow> pyerr + (int list list \<times> int list list)" where
  "getShadowPolygon slic label2rgb histogram label M sizPix thres =
     (if sizPix = 0 then Inl OverflowError
      else
        let mn = \<lceil>real (length (concat M)) / real sizPix\<rceil>;
            SupPix = slic M mn;
            meanIm = label2rgb SupPix M
        in if mn = 0 then Inl (ValueError ''math domain error'')
           else
             let sturge = 1.6 * (log 2 (real_of_int mn) + 1);
                 (values, base) = histogram (concat meanIm) \<lceil>sturge\<rceil>
             in case valley_threshold values base of
                  Inl e \<Rightarrow> Inl e
                | Inr val \<Rightarrow>
                    let imSeparation = map (map (\<lambda>v. v > val)) meanIm;
                        labels = label imSeparation
                    in Inr (labels, SupPix))"

section \<open>The enhancement entry point\<close>

text \<open>
  \<^verbatim>\<open>enhance_shadows(Shw, method, **kwargs)\<close> of \<^verbatim>\<open>preprocessing/shadow_filters.py\<close>.
  The five filters are image-to-image transforms; the model returns the call that the
  source makes, with the image and the parameter values it passes. The keyword
  arguments are a dictionary, given as its list of items; a missing keyword gives the
  default of the source.

  The first, fourth and fifth tests compare \<open>method\<close> with the members of a tuple. The
  second and third are written \<^verbatim>\<open>method in ('kuwahara')\<close> and \<^verbatim>\<open>method in ('median')\<close>:
  the parentheses hold one string and no comma, so Python tests whether \<open>method\<close> is a
  substring of it. The last branch is \<^verbatim>\<open>assert 1==2, 'please provide a correct method'\<close>.
\<close>

datatype 'img filter_call =
    Mean_shift_filter 'img real
  | Kuwahara_filter 'img real
  | Iterative_median_filter 'img real real
  | Anistropic_diffusion_scalar 'img real real real real
  | L0_smoothing 'img real real

definition kwarg :: "(string \<times> real) list \<Rightarrow> string \<Rightarrow> real \<Rightarrow> real" where
  "kwarg kwargs key dflt = (case map_of kwargs key of None \<Rightarrow> dflt | Some v \<Rightarrow> v)"

definition enhance_shadows ::
  "'img \<Rightarrow> string \<Rightarrow> (string \<times> real) list \<Rightarrow> pyerr + 'img filter_call" where
  "enhance_shadows Shw method kwargs =
     (if in_tuple method [''mean'', ''mean-shift''] then
        Inr (Mean_shift_filter Shw (kwarg kwargs ''quantile'' 0.1))
      else if in_str method ''kuwahara'' then
        Inr (Kuwahara_filter Shw (kwarg kwargs ''tsize'' 5))
      else if in_str method ''median'' then
        Inr (Iterative_median_filter Shw (kwarg kwargs ''tsize'' 5) (kwarg kwargs ''loop'' 50))
      else if in_tuple method [''anistropic'', ''anistropic-diffusion''] then
        Inr (Anistropic_diffusion_scalar Shw (kwarg kwargs ''iter'' 10) (kwarg kwargs ''K'' 0.15)
               (kwarg kwargs ''s'' 0.25) (kwarg kwargs ''n'' 4))
      else if in_tuple method [''L0'', ''L0smoothing''] then
        Inr (L0_smoothing Shw (kwarg kwargs ''lamb'' 0.02) (kwarg kwargs ''kappa'' 2))
      else Inl (AssertionError ''please provide a correct method''))"

section \<open>The affine optical-flow estimator\<close>

text \<open>
  \<^verbatim>\<open>affine_optical_flow(I1, I2, model, iteration)\<close> of
  \<^verbatim>\<open>processing/matching_tools_differential.py\<close>. Floating-point numbers are modelled
  by real numbers. The six parameters \<open>p\<close> are the row that the source reshapes into the
  affine matrix \<^verbatim>\<open>[[1, 0, 0], [0, 1, 0]] + p.reshape(3,2).T\<close>.
\<close>

type_synonym params = "real \<times> real \<times> real \<times> real \<times> real \<times> real"

type_synonym mat2 = "(real \<times> real) \<times> (real \<times> real)"





text \<open>\<^verbatim>\<open>np.argmin\<close> and \<^verbatim>\<open>np.min\<close> of a non-empty 1-D array: the first index of the minimum.\<close>

fun first_index :: "'a \<Rightarrow> 'a list \<Rightarrow> nat" where
  "first_index v [] = 0"
| "first_index v (x # xs) = (if x = v then 0 else Suc (first_index v xs))"

definition np_amin :: "real list \<Rightarrow> real" where
  "np_amin xs = fold min (tl xs) (hd xs)"

definition np_argmin :: "real list \<Rightarrow> nat" where
  "np_argmin xs = first_index (np_amin xs) xs"

text \<open>\<^verbatim>\<open>np.linalg.inv\<close> of a 2-by-2 matrix raises LinAlgError on a singular matrix.\<close>

fun np_linalg_inv :: "mat2 \<Rightarrow> pyerr + mat2" where
  "np_linalg_inv ((a, b), (c, d)) =
     (let det = a * d - b * c
      in if det = 0 then Inl LinAlgError
         else Inr ((d / det, - b / det), (- c / det, a / det)))"

fun transpose2 :: "mat2 \<Rightarrow> mat2" where
  "transpose2 ((a, b), (c, d)) = ((a, c), (b, d))"

text \<open>
  Lines 262 to 266: the estimate taken from the parameters of one iteration and its
  residual, \<^verbatim>\<open>u, v = Aff[0,-1], Aff[1,-1]\<close> and \<^verbatim>\<open>A = np.linalg.inv(Aff[:,0:2]).T\<close>.
\<close>

fun iteration_estimate :: "params \<Rightarrow> real \<Rightarrow> pyerr + (real \<times> real \<times> mat2 \<times> real)" where
  "iteration_estimate (p0, p1, p2, p3, p4, p5) snr =
     (let Aff = ((1 + p0, 0 + p2, 0 + p4), (0 + p1, 1 + p3, 0 + p5));
          u = (case Aff of ((a, b, c), (d, e, f)) \<Rightarrow> c);
          v = (case Aff of ((a, b, c), (d, e, f)) \<Rightarrow> f)
      in case np_linalg_inv (case Aff of ((a, b, c), (d, e, f)) \<Rightarrow> ((a, b), (d, e))) of
           Inl err \<Rightarrow> Inl err
         | Inr B \<Rightarrow> Inr (u, v, transpose2 B, snr))"







section \<open>The simple Lucas-Kanade estimator\<close>

text \<open>
  \<^verbatim>\<open>simple_optical_flow(I1, I2, window_size, sampleI, sampleJ, tau, sigma)\<close>. The four
  results are Python values of different kinds on the two paths of the source: plain
  numbers for a single estimate, arrays for a grid, and, for \<open>Vgrd\<close> on the grid path,
  the one-element tuple that the trailing comma of
  \<^verbatim>\<open>Vgrd = np.zeros_like(Ugrd),\<close> builds.
\<close>

datatype pyval = Num real | Arr "real list list" | Tup "pyval list"

text \<open>
  The sample points: a plain integer (which the source wraps into a 1-D array of one
  element), a 1-D array or a 2-D array, given as its rows.
\<close>

datatype samples = Single int | Vector "int list" | Grid "int list list"

fun as_array :: "samples \<Rightarrow> samples" where
  "as_array (Single i) = Vector [i]"
| "as_array s = s"

fun ndim :: "samples \<Rightarrow> nat" where
  "ndim (Grid rows) = 2"
| "ndim s = 1"

fun py_len :: "samples \<Rightarrow> nat" where
  "py_len (Grid rows) = length rows"
| "py_len (Vector xs) = length xs"
| "py_len (Single i) = 1"

fun flat :: "samples \<Rightarrow> int list" where
  "flat (Grid rows) = concat rows"
| "flat (Vector xs) = xs"
| "flat (Single i) = [i]"

fun ncols :: "samples \<Rightarrow> nat" where
  "ncols (Grid rows) = (case rows of [] \<Rightarrow> 0 | r # _ \<Rightarrow> length r)"
| "ncols s = length (flat s)"

definition np_zeros :: "nat \<Rightarrow> nat \<Rightarrow> real list list" where
  "np_zeros k l = replicate k (replicate l 0)"

text \<open>
  Item assignment \<^verbatim>\<open>target[i, j] = v\<close>: on an array it raises IndexError outside the
  array; a tuple and a number support no item assignment (TypeError).
\<close>

fun setitem :: "pyval \<Rightarrow> nat \<Rightarrow> nat \<Rightarrow> real \<Rightarrow> pyerr + pyval" where
  "setitem (Arr a) i j v =
     (if i < length a \<and> j < length (a ! i) then Inr (Arr (a[i := (a ! i)[j := v]]))
      else Inl IndexError)"
| "setitem (Tup vs) i j v = Inl TypeError"
| "setitem (Num x) i j v = Inl TypeError"

text \<open>
  Lines 126 to 141, for one sample point \<open>(iIm, jIm)\<close>: cutting the window out of the
  derivative images, the test \<^verbatim>\<open>np.std(It) != 0\<close>, the eigenvalues and the
  pseudo-inverse are numerical library work on the images. They enter as the function
  \<open>solve\<close>, which gives nothing for a flat window and
  \<open>(nu[0][0], nu[1][0], epsilon[0], epsilon[1])\<close> otherwise.

  The loop body: the state is \<open>(Ugrd, Vgrd, Ueig, Veig)\<close>. A tuple assignment stores
  its targets from left to right, so the first target that fails decides the exception.
\<close>

fun flow_step ::
  "(int \<Rightarrow> int \<Rightarrow> (real \<times> real \<times> real \<times> real) option) \<Rightarrow> samples \<Rightarrow> samples \<Rightarrow> nat \<Rightarrow>
   pyval \<times> pyval \<times> pyval \<times> pyval \<Rightarrow> pyerr + (pyval \<times> pyval \<times> pyval \<times> pyval)" where
  "flow_step solve sampleI sampleJ iIdx (Ugrd, Vgrd, Ueig, Veig) =
     (if \<not> iIdx < length (flat sampleJ) then Inl IndexError
      else
        let iIm = flat sampleI ! iIdx;
            jIm = flat sampleJ ! iIdx;
            iGrd = iIdx div ncols sampleI;
            jGrd = iIdx mod ncols sampleI
        in case solve iIm jIm of
             None \<Rightarrow> Inr (Ugrd, Vgrd, Ueig, Veig)
           | Some (nu0, nu1, eps0, eps1) \<Rightarrow>
               if ndim sampleI > 1 then
                 (case setitem Ugrd iGrd jGrd nu0 of Inl e \<Rightarrow> Inl e | Inr Ugrd' \<Rightarrow>
                  case setitem Vgrd iGrd jGrd nu1 of Inl e \<Rightarrow> Inl e | Inr Vgrd' \<Rightarrow>
                  case setitem Ueig iGrd jGrd eps0 of Inl e \<Rightarrow> Inl e | Inr Ueig' \<Rightarrow>
                  case setitem Veig iGrd jGrd eps1 of Inl e \<Rightarrow> Inl e | Inr Veig' \<Rightarrow>
                    Inr (Ugrd', Vgrd', Ueig', Veig'))
               else Inr (Num nu1, Num nu0, Num eps1, Num eps0))"

fun flow_loop ::
  "(int \<Rightarrow> int \<Rightarrow> (real \<times> real \<times> real \<times> real) option) \<Rightarrow> samples \<Rightarrow> samples \<Rightarrow> nat list \<Rightarrow>
   pyval \<times> pyval \<times> pyval \<times> pyval \<Rightarrow> pyerr + (pyval \<times> pyval \<times> pyval \<times> pyval)" where
  "flow_loop solve sampleI sampleJ [] st = Inr st"
| "flow_loop solve sampleI sampleJ (iIdx # rest) st =
     (case flow_step solve sampleI sampleJ iIdx st of
        Inl e \<Rightarrow> Inl e
      | Inr st' \<Rightarrow> flow_loop solve sampleI sampleJ rest st')"

definition simple_optical_flow ::
  "(int \<Rightarrow> int \<Rightarrow> (real \<times> real \<times> real \<times> real) option) \<Rightarrow> samples \<Rightarrow> samples \<Rightarrow>
   pyerr + (pyval \<times> pyval \<times> pyval \<times> pyval)" where
  "simple_optical_flow solve sampleI0 sampleJ0 =
     (let sampleI = as_array sampleI0;
          sampleJ = as_array sampleJ0;
          init =
            (if ndim sampleI > 1 then
               let Ugrd = np_zeros (py_len sampleI) (py_len sampleJ)
               in (Arr Ugrd, Tup [Arr Ugrd], Arr Ugrd, Arr Ugrd)
             else (Num 0, Num 0, Num 0, Num 0))
      in flow_loop solve sampleI sampleJ [0..<length (flat sampleI)] init)"

text \<open>Stand-ins for the window solver: every window textured, every window flat.\<close>

definition textured_window :: "int \<Rightarrow> int \<Rightarrow> (real \<times> real \<times> real \<times> real) option" where
  "textured_window iIm jIm = Some (0.5, 0.25, 2, 1)"

definition flat_window :: "int \<Rightarrow> int \<Rightarrow> (real \<times> real \<times> real \<times> real) option" where
  "flat_window iIm jIm = None"

section \<open>The Hough optical-flow estimator\<close>

text \<open>
  \<^verbatim>\<open>np.round\<close> rounds halves to the even neighbour.
\<close>

definition np_round :: "real \<Rightarrow> int" where
  "np_round x =
     (let f = \<lfloor>x\<rfloor>; d = x - of_int f
      in if d < 1 / 2 then f
         else if 1 / 2 < d then f + 1
         else if even f then f else f + 1)"

text \<open>
  \<^verbatim>\<open>hough_optical_flow(I1, I2, param_resol, sample_fraction)\<close>. Its arithmetic is
  floating-point arithmetic on arrays, with infinities and NaN where the gradient
  vanishes. The model does not fix it: the number type \<open>'f\<close> and its operations are
  parameters, as are the library routines (\<^verbatim>\<open>ndimage.convolve\<close>, \<^verbatim>\<open>np.linspace\<close>) and
  the helpers of the repository that are defined outside these sources (the Gaussian
  of \<^verbatim>\<open>make_2D_Gaussian((3,3), fwhm=3)\<close>, the two kernels of
  \<^verbatim>\<open>get_grad_filters('kroon')\<close>, and \<^verbatim>\<open>pol2cart\<close>). \<open>f_greater a b\<close> says that \<^verbatim>\<open>np.argmax\<close>
  replaces the running maximum \<open>b\<close> by \<open>a\<close>; \<open>f_float32\<close> rounds into the
  \<^verbatim>\<open>float32\<close> accumulator.
\<close>

record 'f numerics =
  f_int :: "int \<Rightarrow> 'f"
  f_add :: "'f \<Rightarrow> 'f \<Rightarrow> 'f"
  f_sub :: "'f \<Rightarrow> 'f \<Rightarrow> 'f"
  f_mul :: "'f \<Rightarrow> 'f \<Rightarrow> 'f"
  f_div :: "'f \<Rightarrow> 'f \<Rightarrow> 'f"
  f_neg :: "'f \<Rightarrow> 'f"
  f_sqrt :: "'f \<Rightarrow> 'f"
  f_abs :: "'f \<Rightarrow> 'f"
  f_cos :: "'f \<Rightarrow> 'f"
  f_sin :: "'f \<Rightarrow> 'f"
  f_arctan2 :: "'f \<Rightarrow> 'f \<Rightarrow> 'f"
  f_float32 :: "'f \<Rightarrow> 'f"
  f_greater :: "'f \<Rightarrow> 'f \<Rightarrow> bool"
  convolve :: "'f list list \<Rightarrow> 'f list list \<Rightarrow> 'f list list"
  linspace :: "int \<Rightarrow> int \<Rightarrow> nat \<Rightarrow> 'f list"
  gaussian :: "'f list list"
  kroon_x :: "'f list list"
  kroon_y :: "'f list list"
  pol2cart :: "'f \<Rightarrow> 'f \<Rightarrow> 'f \<times> 'f"

text \<open>Element-wise operations on 2-D arrays of one shape.\<close>

definition grid_map :: "('a \<Rightarrow> 'b) \<Rightarrow> 'a list list \<Rightarrow> 'b list list" where
  "grid_map f A = map (map f) A"

definition grid_map2 :: "('a \<Rightarrow> 'b \<Rightarrow> 'c) \<Rightarrow> 'a list list \<Rightarrow> 'b list list \<Rightarrow> 'c list list" where
  "grid_map2 f A B = map (\<lambda>(ra, rb). map (\<lambda>(a, b). f a b) (zip ra rb)) (zip A B)"

definition grid_ncols :: "'a list list \<Rightarrow> nat" where
  "grid_ncols A = (case A of [] \<Rightarrow> 0 | r # _ \<Rightarrow> length r)"

text \<open>
  Lines 317 to 323: every pixel when \<open>sample_fraction\<close> is one or more; otherwise the
  draw of \<^verbatim>\<open>np.random.choice(sample_size, k, replace=False)\<close>, which differs from run to
  run and is the parameter \<open>choice\<close>.
\<close>

definition sample_indices ::
  "(nat \<Rightarrow> int \<Rightarrow> pyerr + nat list) \<Rightarrow> nat \<Rightarrow> real \<Rightarrow> pyerr + nat list" where
  "sample_indices choice sample_size sample_fraction =
     (if sample_fraction \<ge> 1 then Inr [0..<sample_size]
      else choice sample_size (np_round (real sample_size * sample_fraction)))"

text \<open>
  The voting loop, lines 329 to 334. \<^verbatim>\<open>np.unravel_index\<close> raises ValueError on an index
  outside the array.
\<close>

fun hough_votes ::
  "'f numerics \<Rightarrow> 'f list list \<Rightarrow> 'f list list \<Rightarrow> 'f list list \<Rightarrow> 'f list list \<Rightarrow>
   nat list \<Rightarrow> 'f list list \<Rightarrow> pyerr + 'f list list" where
  "hough_votes np rho theta_G u v [] vote = Inr vote"
| "hough_votes np rho theta_G u v (counter # rest) vote =
     (if \<not> counter < length (concat rho) then Inl (ValueError ''index out of bounds'')
      else
        let idx_i = counter div grid_ncols rho;
            idx_j = counter mod grid_ncols rho;
            r = rho ! idx_i ! idx_j;
            t = theta_G ! idx_i ! idx_j;
            diff = grid_map2 (f_add np)
                     (grid_map (\<lambda>a. f_sub np r (f_mul np a (f_cos np t))) u)
                     (grid_map (\<lambda>b. f_mul np b (f_sin np t)) v);
            incr = grid_map (\<lambda>d. f_div np (f_int np 1) (f_add np (f_int np 1) (f_abs np d))) diff;
            vote' = grid_map2 (\<lambda>a b. f_float32 np (f_add np a b)) vote incr
        in hough_votes np rho theta_G u v rest vote')"

text \<open>\<^verbatim>\<open>np.argmax\<close> of the flattened array: the first index of the maximum.\<close>

fun argmax_from :: "('f \<Rightarrow> 'f \<Rightarrow> bool) \<Rightarrow> 'f list \<Rightarrow> nat \<Rightarrow> nat \<Rightarrow> 'f \<Rightarrow> nat" where
  "argmax_from gt [] i best bestv = best"
| "argmax_from gt (x # xs) i best bestv =
     (if gt x bestv then argmax_from gt xs (Suc i) i x
      else argmax_from gt xs (Suc i) best bestv)"

definition np_argmax :: "('f \<Rightarrow> 'f \<Rightarrow> bool) \<Rightarrow> 'f list \<Rightarrow> pyerr + nat" where
  "np_argmax gt xs =
     (case xs of
        [] \<Rightarrow> Inl (ValueError ''attempt to get argmax of an empty sequence'')
      | x # rest \<Rightarrow> Inr (argmax_from gt rest 1 0 x))"

definition hough_optical_flow ::
  "'f numerics \<Rightarrow> (nat \<Rightarrow> int \<Rightarrow> pyerr + nat list) \<Rightarrow> 'f list list \<Rightarrow> 'f list list \<Rightarrow>
   nat \<Rightarrow> real \<Rightarrow> pyerr + ('f \<times> 'f)" where
  "hough_optical_flow np choice I1_in I2_in param_resol sample_fraction =
     (let kernel_x = kroon_x np;
          kernel_y = kroon_y np;
          kernel_t = grid_map (\<lambda>c. f_div np (f_int np c) (f_int np 10))
                       [[1, 1, 1], [1, 2, 1], [1, 1, 1]];
          I1 = convolve np I1_in (gaussian np);
          I2 = convolve np I2_in (gaussian np);
          I_dx = convolve np I1 kernel_x;
          I_dy = convolve np I1 kernel_y;
          I_dt = grid_map2 (f_add np) (convolve np I2 kernel_t)
                   (convolve np I1 (grid_map (f_neg np) kernel_t));
          abs_G = grid_map (f_sqrt np)
                    (grid_map2 (f_add np) (grid_map (\<lambda>x. f_mul np x x) I_dx)
                       (grid_map (\<lambda>y. f_mul np y y) I_dy));
          theta_G = grid_map2 (f_arctan2 np) I_dx I_dy;
          rho = grid_map2 (f_div np) I_dt abs_G;
          sample_size = length (concat rho)
      in case sample_indices choice sample_size sample_fraction of
           Inl e \<Rightarrow> Inl e
         | Inr idx \<Rightarrow>
             let lin = linspace np (- 1) 1 param_resol;
                 u = map (\<lambda>y. lin) lin;
                 v = map (\<lambda>y. map (\<lambda>x. y) lin) lin;
                 vote0 = replicate param_resol (replicate param_resol (f_int np 0))
             in case hough_votes np rho theta_G u v idx vote0 of
                  Inl e \<Rightarrow> Inl e
                | Inr vote \<Rightarrow>
                    (case np_argmax (f_greater np) (concat vote) of
                       Inl e \<Rightarrow> Inl e
                     | Inr k \<Rightarrow>
                         let ind_i = k div grid_ncols vote;
                             ind_j = k mod grid_ncols vote;
                             uH = u ! ind_i ! ind_j;
                             vH = v ! ind_i ! ind_j;
                             rho_H = f_mul np (f_int np 2)
                                       (f_sqrt np (f_add np (f_mul np uH uH) (f_mul np vH vH)));
                             theta_H = f_arctan2 np vH uH
                         in Inr (pol2cart np rho_H theta_H)))"

text \<open>
  An instance for concrete inputs: real arithmetic (quotients by zero are \<open>0\<close>, and the
  angle of a vector is taken by \<open>arctan\<close> in the right half-plane only), the identity
  for the convolution, and two draws of the random subsample that differ.
\<close>

definition real_numerics :: "real numerics" where
  "real_numerics =
     \<lparr> f_int = real_of_int, f_add = (+), f_sub = (-), f_mul = (*), f_div = (/),
       f_neg = uminus, f_sqrt = sqrt, f_abs = abs, f_cos = cos, f_sin = sin,
       f_arctan2 = (\<lambda>y x. if 0 < x then arctan (y / x) else 0),
       f_float32 = id, f_greater = (\<lambda>a b. b < a),
       convolve = (\<lambda>A K. A),
       linspace = (\<lambda>a b n. map (\<lambda>i. real_of_int a + real i * real_of_int (b - a)) [0..<n]),
       gaussian = [[1]], kroon_x = [[1]], kroon_y = [[1]],
       pol2cart = (\<lambda>r t. (r * cos t, r * sin t)) \<rparr>"

definition draw_first :: "nat \<Rightarrow> int \<Rightarrow> pyerr + nat list" where
  "draw_first sample_size k = Inr [0..<nat k]"

definition draw_last :: "nat \<Rightarrow> int \<Rightarrow> pyerr + nat list" where
  "draw_last sample_size k = Inr (rev [sample_size - nat k..<sample_size])"

section \<open>The raster ridge and cast pairer\<close>

text \<open>
  \<^verbatim>\<open>labelOccluderAndCasted(labeling, sunAz)\<close> of \<^verbatim>\<open>preprocessing/shadow_geometry.py\<close>.
  Arrays are lists of rows. Angles and distances are floating-point numbers in the
  source and real numbers here.
\<close>

definition radians :: "real \<Rightarrow> real" where
  "radians d = d * pi / 180"

text \<open>\<^verbatim>\<open>A[i][j] = v\<close> raises IndexError outside the array.\<close>

definition grid_set :: "'a list list \<Rightarrow> nat \<Rightarrow> nat \<Rightarrow> 'a \<Rightarrow> pyerr + 'a list list" where
  "grid_set A i j v =
     (if i < length A \<and> j < length (A ! i) then Inr (A[i := (A ! i)[j := v]])
      else Inl IndexError)"

text \<open>\<^verbatim>\<open>np.nonzero\<close> of a 2-D boolean array: the indices of its true cells in scan order.\<close>

definition nonzero :: "bool list list \<Rightarrow> (nat \<times> nat) list" where
  "nonzero B =
     concat (map (\<lambda>i. map (\<lambda>j. (i, j)) (filter (\<lambda>j. B ! i ! j) [0..<length (B ! i)]))
               [0..<length B])"

text \<open>The slice \<^verbatim>\<open>A[imin:imax, jmin:jmax]\<close> with bounds inside the array.\<close>

definition sub_image :: "'a list list \<Rightarrow> nat \<Rightarrow> nat \<Rightarrow> nat \<Rightarrow> nat \<Rightarrow> 'a list list" where
  "sub_image A imin imax jmin jmax =
     map (\<lambda>row. take (jmax - jmin) (drop jmin row)) (take (imax - imin) (drop imin A))"

text \<open>\<^verbatim>\<open>np.arange(start, stop, step=1)\<close> on integers.\<close>

definition arange :: "int \<Rightarrow> int \<Rightarrow> int list" where
  "arange start stop = [start..stop - 1]"

text \<open>
  Lines 197 to 213: the cast line of one ridge pixel, as the row and column indices
  \<open>rr\<close> and \<open>cc\<close>, from the azimuth \<open>sunDir\<close> and the direction
  \<open>dI = -cos(sunDir)\<close>, \<open>dJ = -sin(sunDir)\<close>.
\<close>

definition cast_ray_dir ::
  "nat \<Rightarrow> nat \<Rightarrow> nat \<Rightarrow> nat \<Rightarrow> real \<Rightarrow> real \<Rightarrow> real \<Rightarrow> int list \<times> int list" where
  "cast_ray_dir m n ridgeI ridgeJ sunDir dI dJ =
     (if \<bar>sunDir\<bar> > 90 then
        (if dI > dJ then
           let rr = arange 0 (int ridgeI);
               cc = map (\<lambda>c. c + int ridgeJ) (rev (map (\<lambda>r. np_round (real_of_int r * dJ)) rr))
           in (rr, cc)
         else
           let cc = arange 0 (int ridgeJ);
               rr = map (\<lambda>r. r + int ridgeI) (rev (map (\<lambda>c. np_round (real_of_int c * dI)) cc))
           in (rr, cc))
      else
        (if dI > dJ then
           let rr = arange (int ridgeI) (int m);
               cc = map (\<lambda>r. np_round (real_of_int r * dJ) + int ridgeJ) rr
           in (rr, cc)
         else
           let cc = arange (int ridgeJ) (int n);
               rr = map (\<lambda>c. np_round (real_of_int c * dI) + int ridgeI) cc
           in (rr, cc)))"

definition cast_ray :: "nat \<Rightarrow> nat \<Rightarrow> nat \<Rightarrow> nat \<Rightarrow> real \<Rightarrow> int list \<times> int list" where
  "cast_ray m n ridgeI ridgeJ sunDir =
     cast_ray_dir m n ridgeI ridgeJ sunDir (- cos (radians sunDir)) (- sin (radians sunDir))"

text \<open>
  Lines 216 to 220, the filter ``inside sub-image'':
  \<^verbatim>\<open>IN = (cc >= 0) & (cc <= n) & (rr >= 0) & (rr <= m)\<close>, and the indices it keeps.
\<close>

definition inside :: "nat \<Rightarrow> nat \<Rightarrow> int list \<Rightarrow> int list \<Rightarrow> (int \<times> int) list" where
  "inside m n rr cc =
     filter (\<lambda>(r, c). c \<ge> 0 \<and> c \<le> int n \<and> r \<ge> 0 \<and> r \<le> int m) (zip rr cc)"

definition kept_indices :: "nat \<Rightarrow> nat \<Rightarrow> nat \<Rightarrow> nat \<Rightarrow> real \<Rightarrow> (int \<times> int) list" where
  "kept_indices m n ridgeI ridgeJ sunDir =
     (case cast_ray m n ridgeI ridgeJ sunDir of (rr, cc) \<Rightarrow> inside m n rr cc)"

text \<open>
  Lines 214 and 222: \<^verbatim>\<open>subCast = np.zeros((m, n)); subCast[rr, cc] = 1\<close>. An index \<open>k\<close>
  of an axis of length \<open>len\<close> is valid from \<open>-len\<close> to \<open>len - 1\<close>, a negative one
  counting from the end; any other raises IndexError and nothing is stored.
\<close>

definition valid_index :: "nat \<Rightarrow> int \<Rightarrow> bool" where
  "valid_index len k = (- int len \<le> k \<and> k < int len)"

definition wrap_index :: "nat \<Rightarrow> int \<Rightarrow> nat" where
  "wrap_index len k = nat (if k < 0 then k + int len else k)"

definition draw_line :: "nat \<Rightarrow> nat \<Rightarrow> (int \<times> int) list \<Rightarrow> pyerr + bool list list" where
  "draw_line m n kept =
     (if list_all (\<lambda>(r, c). valid_index m r \<and> valid_index n c) kept then
        Inr (map (\<lambda>i. map (\<lambda>j. (i, j) \<in> set (map (\<lambda>(r, c). (wrap_index m r, wrap_index n c)) kept))
                        [0..<n])
               [0..<m])
      else Inl IndexError)"

text \<open>
  Lines 227 to 230: the pixels of the region, in scan order, that are receiver boundary
  and lie on the cast line.
\<close>

definition cast_hits :: "(nat \<times> nat) list \<Rightarrow> bool list list \<Rightarrow> bool list list \<Rightarrow> (nat \<times> nat) list" where
  "cast_hits subWhe cast subCast = filter (\<lambda>(i, j). cast ! i ! j \<and> subCast ! i ! j) subWhe"

text \<open>Lines 233 to 239: with more than one hit, those at the least distance are kept.\<close>

definition pixel_dist :: "nat \<Rightarrow> nat \<Rightarrow> nat \<times> nat \<Rightarrow> real" where
  "pixel_dist ridgeI ridgeJ p =
     sqrt (real_of_int ((int (fst p) - int ridgeI)\<^sup>2 + (int (snd p) - int ridgeJ)\<^sup>2))"

definition closest_casted :: "(nat \<times> nat) list \<Rightarrow> nat \<Rightarrow> nat \<Rightarrow> (nat \<times> nat) list" where
  "closest_casted hits ridgeI ridgeJ =
     (if length hits > 1 then
        let dist = map (pixel_dist ridgeI ridgeJ) hits;
            idx = filter (\<lambda>k. dist ! k = np_amin dist) [0..<length dist]
        in map (\<lambda>k. hits ! k) idx
      else hits)"

text \<open>
  The body of the loop over the ridge pixels (lines 190 to 250) for the ridge pixel
  number \<open>x\<close> at \<open>(ridgeI, ridgeJ)\<close> of the sub-image. \<open>shadowIdx\<close> is the output array
  of the whole image; its cells are \<^verbatim>\<open>int16\<close> in the source and integers here, which
  is the same for fewer than \<open>2^15\<close> ridge pixels in a region. An IndexError of the
  rasterization is caught by the source and the ridge pixel is passed over.
\<close>

definition pair_pixel ::
  "nat \<Rightarrow> nat \<Rightarrow> (nat \<times> nat) list \<Rightarrow> bool list list \<Rightarrow> real list list \<Rightarrow> nat \<Rightarrow> nat \<Rightarrow>
   nat \<Rightarrow> nat \<Rightarrow> nat \<Rightarrow> int list list \<Rightarrow> pyerr + int list list" where
  "pair_pixel m n subWhe cast subAz labImin labJmin ridgeI ridgeJ x shadowIdx =
     (let sunDir = subAz ! ridgeI ! ridgeJ;
          kept = kept_indices m n ridgeI ridgeJ sunDir
      in if kept = [] then Inr shadowIdx
         else
           case draw_line m n kept of
             Inl e \<Rightarrow> Inr shadowIdx
           | Inr subCast \<Rightarrow>
               (case closest_casted (cast_hits subWhe cast subCast) ridgeI ridgeJ of
                  [] \<Rightarrow> Inr shadowIdx
                | (castI0, castJ0) # others \<Rightarrow>
                    (case grid_set shadowIdx (ridgeI + labImin) (ridgeJ + labJmin) (int x) of
                       Inl e \<Rightarrow> Inl e
                     | Inr shadowIdx' \<Rightarrow>
                         grid_set shadowIdx' (castI0 + labImin) (castJ0 + labJmin) (- int x))))"

fun pair_pixels ::
  "nat \<Rightarrow> nat \<Rightarrow> (nat \<times> nat) list \<Rightarrow> bool list list \<Rightarrow> real list list \<Rightarrow> nat \<Rightarrow> nat \<Rightarrow>
   (nat \<times> nat) list \<Rightarrow> nat \<Rightarrow> int list list \<Rightarrow> pyerr + int list list" where
  "pair_pixels m n subWhe cast subAz labImin labJmin [] x shadowIdx = Inr shadowIdx"
| "pair_pixels m n subWhe cast subAz labImin labJmin ((ridgeI, ridgeJ) # ridges) x shadowIdx =
     (case pair_pixel m n subWhe cast subAz labImin labJmin ridgeI ridgeJ x shadowIdx of
        Inl e \<Rightarrow> Inl e
      | Inr shadowIdx' \<Rightarrow>
          pair_pixels m n subWhe cast subAz labImin labJmin ridges (Suc x) shadowIdx')"

text \<open>
  One labelled region (lines 142 to 190). \<^verbatim>\<open>ndimage.binary_erosion\<close> is a library call
  and enters as \<open>erosion\<close>; \<open>bndOrient\<close> is the orientation of the whole mask. The
  sub-image leaves out the last row and the last column of the bounding box, as the
  slices \<^verbatim>\<open>[labImin:labImax, labJmin:labJmax]\<close> do.
\<close>

definition pair_region ::
  "(bool list list \<Rightarrow> bool list list) \<Rightarrow> int list list \<Rightarrow> real list list \<Rightarrow> real list list \<Rightarrow>
   int \<Rightarrow> int list list \<Rightarrow> pyerr + int list list" where
  "pair_region erosion labeling sunAz bndOrient i shadowIdx =
     (let selec = map (map (\<lambda>v. v = i)) labeling;
          labIdx = nonzero selec;
          labImin = Min (set (map fst labIdx));
          labImax = Max (set (map fst labIdx));
          labJmin = Min (set (map snd labIdx));
          labJmax = Max (set (map snd labIdx));
          subMsk = sub_image selec labImin labImax labJmin labJmax;
          subBound = map (\<lambda>(a, b). map (\<lambda>(p, q). p \<noteq> q) (zip a b)) (zip subMsk (erosion subMsk));
          subOrient = map (\<lambda>(a, b). map (\<lambda>(v, bnd). if bnd then sgn v else 0) (zip a b))
                        (zip (sub_image bndOrient labImin labImax labJmin labJmax) subBound);
          subAz = sub_image sunAz labImin labImax labJmin labJmax;
          subWhe = nonzero subMsk;
          ridges = filter (\<lambda>(a, b). subOrient ! a ! b = 1) subWhe;
          cast = map (map (\<lambda>v. v = - 1)) subOrient;
          m = length subMsk;
          n = (case subMsk of [] \<Rightarrow> labJmax - labJmin | r # _ \<Rightarrow> length r)
      in pair_pixels m n subWhe cast subAz labImin labJmin ridges 0 shadowIdx)"

fun pair_regions ::
  "(bool list list \<Rightarrow> bool list list) \<Rightarrow> int list list \<Rightarrow> real list list \<Rightarrow> real list list \<Rightarrow>
   int list \<Rightarrow> int list list \<Rightarrow> pyerr + int list list" where
  "pair_regions erosion labeling sunAz bndOrient [] shadowIdx = Inr shadowIdx"
| "pair_regions erosion labeling sunAz bndOrient (i # labList) shadowIdx =
     (case pair_region erosion labeling sunAz bndOrient i shadowIdx of
        Inl e \<Rightarrow> Inl e
      | Inr shadowIdx' \<Rightarrow> pair_regions erosion labeling sunAz bndOrient labList shadowIdx')"

text \<open>
  The whole function. \<^verbatim>\<open>castOrientation\<close> is defined outside these sources and enters
  as a parameter. The mask of the raster pairer is \<^verbatim>\<open>labeling >= 1\<close>.
\<close>

definition labelOccluderAndCasted ::
  "(bool list list \<Rightarrow> bool list list) \<Rightarrow> (real list list \<Rightarrow> real list list \<Rightarrow> real list list) \<Rightarrow>
   int list list \<Rightarrow> real list list \<Rightarrow> pyerr + int list list" where
  "labelOccluderAndCasted erosion castOrientation labeling sunAz =
     (let msk = map (map (\<lambda>v. v \<ge> 1)) labeling;
          shadowIdx = map (map (\<lambda>v. 0)) labeling;
          inner = erosion msk;
          bndOrient = castOrientation (map (map (\<lambda>b. if b then 1 else 0)) inner) sunAz;
          labList = filter (\<lambda>v. v \<noteq> 0) (sort (remdups (concat labeling)))
      in pair_regions erosion labeling sunAz bndOrient labList shadowIdx)"

section \<open>The vector pairer\<close>

text \<open>
  \<^verbatim>\<open>listOccluderAndCasted(labels, sunZn, sunAz, geoTransform)\<close>. The result of
  \<^verbatim>\<open>polygoon.intersection(castLine)\<close> is a geometry of the geometry library; the source
  branches on its type and has branches for these four. (Its last branch, for any other
  type, prints a message and leaves the geometry as it is; what follows then rests on
  the sequence protocol of the library and is not modelled.)
\<close>

type_synonym coord = "real \<times> real"

datatype geometry =
    LineString "coord list"
  | MultiLineString "coord list list"
  | GeometryCollection "coord list list"
  | Point coord

text \<open>Lines 317 to 333: the geometry flattened to a list of coordinates.\<close>

fun coords_of :: "geometry \<Rightarrow> coord list" where
  "coords_of (LineString cs) = cs"
| "coords_of (MultiLineString parts) = concat parts"
| "coords_of (GeometryCollection parts) = concat parts"
| "coords_of (Point c) = []"

text \<open>
  Distances with Python's \<^verbatim>\<open>float('Inf')\<close>, the built-in \<^verbatim>\<open>min\<close> (the first of the
  least elements) and \<^verbatim>\<open>list.index\<close>.
\<close>

datatype pyfloat = Finite real | Infinity

fun pyfloat_less :: "pyfloat \<Rightarrow> pyfloat \<Rightarrow> bool" where
  "pyfloat_less (Finite a) (Finite b) = (a < b)"
| "pyfloat_less (Finite a) Infinity = True"
| "pyfloat_less Infinity b = False"

definition py_min_float :: "pyfloat list \<Rightarrow> pyfloat" where
  "py_min_float xs = fold (\<lambda>x m. if pyfloat_less x m then x else m) (tl xs) (hd xs)"

definition point_distance :: "coord \<Rightarrow> coord \<Rightarrow> real" where
  "point_distance a b = sqrt ((fst a - fst b)\<^sup>2 + (snd a - snd b)\<^sup>2)"

type_synonym geotransform = "real \<times> real \<times> real \<times> real \<times> real \<times> real"

text \<open>
  Lines 341 to 346: zero distances are replaced by infinity, and the first candidate
  of least distance is taken.
\<close>

definition nearest_candidate :: "nat \<Rightarrow> nat \<Rightarrow> coord list \<Rightarrow> coord" where
  "nearest_candidate ridgeI ridgeJ castEnd =
     (let occluder = (real ridgeJ, real ridgeI);
          dists = map (\<lambda>c. point_distance c occluder) castEnd;
          dists' = map (\<lambda>i. if i = 0 then Infinity else Finite i) dists;
          castIdx = first_index (py_min_float dists') dists';
          casted = castEnd ! castIdx
      in casted)"

text \<open>
  Lines 348 to 368: the ridge pixel and the casted point in map coordinates, with the sun
  angles of the ridge pixel.
\<close>

fun entry_of :: "geotransform \<Rightarrow> nat \<Rightarrow> nat \<Rightarrow> coord \<Rightarrow> real \<Rightarrow> real \<Rightarrow> real list" where
  "entry_of (g0, g1, g2, g3, g4, g5) ridgeI ridgeJ casted az zn =
     (let ridgeX = real ridgeI * g2 + real ridgeJ * g1 + g0;
          ridgeY = real ridgeI * g5 + real ridgeJ * g4 + g3;
          castX = snd casted * g2 + fst casted * g1 + g0;
          castY = snd casted * g5 + fst casted * g4 + g3
      in [ridgeX, ridgeY, castX, castY, az, zn])"

text \<open>
  Lines 337 to 370, for the ridge pixel \<open>(ridgeI, ridgeJ)\<close> with sun angles \<open>az\<close> and
  \<open>zn\<close>: the entry appended to \<open>castList\<close>, if any. The test \<^verbatim>\<open>len(castEnd) > 1\<close>
  comes before the zero distances are looked at.
\<close>

definition cast_entry ::
  "geotransform \<Rightarrow> nat \<Rightarrow> nat \<Rightarrow> real \<Rightarrow> real \<Rightarrow> geometry \<Rightarrow> real list option" where
  "cast_entry gt ridgeI ridgeJ az zn geom =
     (let castEnd = coords_of geom
      in if length castEnd > 1 then
           Some (entry_of gt ridgeI ridgeJ (nearest_candidate ridgeI ridgeJ castEnd) az zn)
         else None)"

text \<open>
  The candidates in the words of the specification: the intersection points that remain
  after the points at distance zero from the ridge point are excluded.
\<close>

definition remaining_candidates :: "nat \<Rightarrow> nat \<Rightarrow> geometry \<Rightarrow> coord list" where
  "remaining_candidates ridgeI ridgeJ geom =
     filter (\<lambda>c. point_distance c (real ridgeJ, real ridgeI) \<noteq> 0) (coords_of geom)"

text \<open>
  The loop over the ridge pixels of one polygon (lines 297 to 371). The intersection,
  with its one repair of a self-intersecting polygon by \<^verbatim>\<open>buffer(0)\<close>, belongs to the
  geometry library: \<open>intersection\<close> gives the polygon, repaired or not, and the
  geometry, or the error that propagates. An azimuth index outside \<open>sunAz\<close> passes the
  pixel over.
\<close>

fun cast_pixels ::
  "('poly \<Rightarrow> coord \<times> coord \<Rightarrow> pyerr + ('poly \<times> geometry)) \<Rightarrow> real list list \<Rightarrow> real list list \<Rightarrow>
   geotransform \<Rightarrow> (nat \<times> nat) list \<Rightarrow> 'poly \<Rightarrow> real list list \<Rightarrow> pyerr + real list list" where
  "cast_pixels intersection sunZn sunAz gt [] polygoon castList = Inr castList"
| "cast_pixels intersection sunZn sunAz gt ((ridgeI, ridgeJ) # ridges) polygoon castList =
     (if \<not> (ridgeI < length sunAz \<and> ridgeJ < length (sunAz ! ridgeI)) then
        cast_pixels intersection sunZn sunAz gt ridges polygoon castList
      else
        let az = sunAz ! ridgeI ! ridgeJ;
            castLine = ((real ridgeJ, real ridgeI),
                        (real ridgeJ - sin (radians az) * 10000,
                         real ridgeI + cos (radians az) * 10000))
        in case intersection polygoon castLine of
             Inl e \<Rightarrow> Inl e
           | Inr (polygoon', castEnd) \<Rightarrow>
               (case cast_entry gt ridgeI ridgeJ az (sunZn ! ridgeI ! ridgeJ) castEnd of
                  None \<Rightarrow> cast_pixels intersection sunZn sunAz gt ridges polygoon' castList
                | Some entry \<Rightarrow>
                    if ridgeI < length sunZn \<and> ridgeJ < length (sunZn ! ridgeI) then
                      cast_pixels intersection sunZn sunAz gt ridges polygoon'
                        (castList @ [entry])
                    else Inl IndexError))"

text \<open>The loop over the shapes (lines 279 to 297).\<close>

fun cast_polygons ::
  "(bool list list \<Rightarrow> bool list list) \<Rightarrow> ('poly \<Rightarrow> coord \<times> coord \<Rightarrow> pyerr + ('poly \<times> geometry)) \<Rightarrow>
   int list list \<Rightarrow> real list list \<Rightarrow> real list list \<Rightarrow> real list list \<Rightarrow> geotransform \<Rightarrow>
   ('poly \<times> int) list \<Rightarrow> real list list \<Rightarrow> pyerr + real list list" where
  "cast_polygons erosion intersection labels mskOrient sunZn sunAz gt [] castList = Inr castList"
| "cast_polygons erosion intersection labels mskOrient sunZn sunAz gt ((shp, val) # rest) castList =
     (if val \<noteq> 0 then
        let polyRast = map (map (\<lambda>v. v = val)) labels;
            polyInnr = erosion polyRast;
            polyBoun = map (\<lambda>(a, b). map (\<lambda>(p, q). p \<noteq> q) (zip a b)) (zip polyRast polyInnr);
            polyWhe = nonzero polyBoun;
            ridges = filter (\<lambda>(i, j). mskOrient ! i ! j = 1) polyWhe
        in case cast_pixels intersection sunZn sunAz gt ridges shp castList of
             Inl e \<Rightarrow> Inl e
           | Inr castList' \<Rightarrow>
               cast_polygons erosion intersection labels mskOrient sunZn sunAz gt rest castList'
      else cast_polygons erosion intersection labels mskOrient sunZn sunAz gt rest castList)"

text \<open>
  The whole function. The mask handed to the vectorizer \<^verbatim>\<open>shapes(labels, mask=msk,
  connectivity=8)\<close> is \<^verbatim>\<open>labels > 1\<close>. The vectorizer and the erosion are library calls,
  \<^verbatim>\<open>castOrientation\<close> is defined outside these sources; they are parameters.
\<close>

definition vector_mask :: "int list list \<Rightarrow> bool list list" where
  "vector_mask labels = map (map (\<lambda>v. v > 1)) labels"

definition listOccluderAndCasted ::
  "(real list list \<Rightarrow> real list list \<Rightarrow> real list list) \<Rightarrow>
   (int list list \<Rightarrow> bool list list \<Rightarrow> ('poly \<times> int) list) \<Rightarrow>
   (bool list list \<Rightarrow> bool list list) \<Rightarrow> ('poly \<Rightarrow> coord \<times> coord \<Rightarrow> pyerr + ('poly \<times> geometry)) \<Rightarrow>
   int list list \<Rightarrow> real list list \<Rightarrow> real list list \<Rightarrow> geotransform \<Rightarrow> pyerr + real list list" where
  "listOccluderAndCasted castOrientation shapes erosion intersection labels sunZn sunAz gt =
     (let msk = vector_mask labels;
          mskOrient = map (map sgn)
                        (castOrientation (map (map (\<lambda>b. if b then 1 else 0)) msk) sunAz)
      in cast_polygons erosion intersection labels mskOrient sunZn sunAz gt (shapes labels msk) [])"

section \<open>Library routines for the pairers on concrete rasters\<close>

text \<open>
  \<^verbatim>\<open>ndimage.binary_erosion\<close> with its default structuring element, the cross of the four
  neighbours, and with the full three-by-three square; cells outside the array count as
  background.
\<close>

definition cell :: "bool list list \<Rightarrow> int \<Rightarrow> int \<Rightarrow> bool" where
  "cell B i j =
     (0 \<le> i \<and> i < int (length B) \<and> 0 \<le> j \<and> j < int (length (B ! nat i)) \<and> B ! nat i ! nat j)"

definition binary_erosion_cross :: "bool list list \<Rightarrow> bool list list" where
  "binary_erosion_cross B =
     map (\<lambda>i. map (\<lambda>j. cell B (int i) (int j) \<and> cell B (int i - 1) (int j)
                        \<and> cell B (int i + 1) (int j) \<and> cell B (int i) (int j - 1)
                        \<and> cell B (int i) (int j + 1))
                  [0..<length (B ! i)])
         [0..<length B]"

definition binary_erosion_square :: "bool list list \<Rightarrow> bool list list" where
  "binary_erosion_square B =
     map (\<lambda>i. map (\<lambda>j. list_all (\<lambda>(di, dj). cell B (int i + di) (int j + dj))
                          [(- 1, - 1), (- 1, 0), (- 1, 1), (0, - 1), (0, 0), (0, 1),
                           (1, - 1), (1, 0), (1, 1)])
                  [0..<length (B ! i)])
         [0..<length B]"

text \<open>
  An orientation field for a four-by-four raster: ridge at \<open>(1,0)\<close> and \<open>(2,0)\<close>,
  receiver boundary at \<open>(0,1)\<close> and \<open>(0,2)\<close>; and the field that makes every cell a
  ridge.
\<close>

definition west_ridge_north_cast :: "real list list \<Rightarrow> real list list \<Rightarrow> real list list" where
  "west_ridge_north_cast inner sunAz =
     [[0, - 1, - 1, 0], [1, 0, 0, 0], [1, 0, 0, 0], [0, 0, 0, 0]]"

definition all_ridge :: "real list list \<Rightarrow> real list list \<Rightarrow> real list list" where
  "all_ridge inner sunAz = map (map (\<lambda>v. 1)) inner"

text \<open>
  A vectorizer that gives one shape for every value found under the mask (the shape is
  the list of its cells), and an intersection that gives the unit segment from the
  start of the cast line along the second axis.
\<close>

definition shapes_by_value :: "int list list \<Rightarrow> bool list list \<Rightarrow> ((nat \<times> nat) list \<times> int) list" where
  "shapes_by_value labels msk =
     map (\<lambda>val. (filter (\<lambda>(i, j). labels ! i ! j = val) (nonzero msk), val))
       (sort (remdups (map (\<lambda>(i, j). labels ! i ! j) (nonzero msk))))"

definition unit_segment ::
  "(nat \<times> nat) list \<Rightarrow> coord \<times> coord \<Rightarrow> pyerr + ((nat \<times> nat) list \<times> geometry)" where
  "unit_segment polygoon castLine =
     Inr (polygoon, LineString [fst castLine, (fst (fst castLine), snd (fst castLine) + 1)])"

section \<open>Stand-ins for library calls\<close>

text \<open>
  Where a theorem speaks of any histogram, segmentation or labelling routine, its
  instance at a concrete input needs one. These stand-ins are the simplest: the
  histogram of a one-pixel image of intensity \<open>0.5\<close> in two bins (numpy widens the empty
  range to \<open>[0, 1]\<close>), one superpixel, its mean image, and one label per pixel.
\<close>

definition one_pixel_histogram :: "real list \<Rightarrow> int \<Rightarrow> int list \<times> real list" where
  "one_pixel_histogram xs bins = ([0, 1], [0, 0.5, 1])"

definition one_superpixel :: "real list list \<Rightarrow> int \<Rightarrow> int list list" where
  "one_superpixel M mn = map (map (\<lambda>v. 1)) M"

definition mean_of_one_superpixel :: "int list list \<Rightarrow> real list list \<Rightarrow> real list list" where
  "mean_of_one_superpixel SupPix M = M"

definition label_foreground :: "bool list list \<Rightarrow> int list list" where
  "label_foreground B = map (map (\<lambda>b. if b then 1 else 0)) B"

section \<open>Properties of the valley finder and the shadow labelers\<close>

lemma findValley_few_neighbors:
  "neighbors \<le> 1 \<Longrightarrow> findValley values base neighbors = Inl UnboundLocalError"
  by (simp add: findValley_def)

text \<open>
  C1. The claim: for every histogram and neighbour count \<open>k \<ge> 1\<close> the valley finder
  returns exactly the bins that are local minima strictly lower than their \<open>k\<close>
  neighbours on both sides, and for a strictly monotonic histogram it returns nothing.
  The source departs from it. The walls start at the first neighbour, so the count of
  the bin itself is never compared, and \<^verbatim>\<open>np.roll\<close> wraps around the ends of the
  histogram. On the strictly increasing counts \<open>1, \<dots>, 6\<close> with two neighbours the
  finder returns the edge of bin 1 (its left wall is bin 0 and, wrapped around, bin 5);
  on the counts \<open>5, 4, 3, 9, 3, 4, 5\<close> it returns bin 3, the peak; on a single strict V it
  returns three bins; and with one neighbour it raises.
\<close>

theorem findValley_departs_from_contract:
  "findValley [1, 2, 3, 4, 5, 6] [0, 1, 2, 3, 4, 5, 6 :: real] 2 = Inr [1]
   \<and> findValley [5, 4, 3, 9, 3, 4, 5] [0, 1, 2, 3, 4, 5, 6, 7 :: real] 2 = Inr [3]
   \<and> findValley [9, 7, 5, 3, 1, 3, 5, 7, 9] [0, 1, 2, 3, 4, 5, 6, 7, 8, 9 :: real] 2
       = Inr [3, 4, 5]
   \<and> findValley [9, 7, 5, 3, 1, 3, 5, 7, 9] [0, 1, 2, 3, 4, 5, 6, 7, 8, 9 :: real] 1
       = Inl UnboundLocalError"
  by code_simp

lemma py_max_empty: "py_max [] = Inl (ValueError ''max() arg is an empty sequence'')"
  by (simp add: py_max_def)

lemma valley_threshold_empty:
  "findValley values base 2 = Inr [] \<Longrightarrow>
   valley_threshold values base = Inl (ValueError ''max() arg is an empty sequence'')"
  by (simp add: valley_threshold_def py_max_empty)

lemma ceiling_quotient_pos:
  fixes a b :: nat
  assumes "0 < a" "0 < b"
  shows "\<lceil>real a / real b\<rceil> \<noteq> 0"
proof -
  have "0 < real a / real b" using assms by simp
  then have "0 < \<lceil>real a / real b\<rceil>" by simp
  then show ?thesis by linarith
qed

text \<open>
  C4. When the valley finder returns no valley, the shadow labelers fail, and with the
  error of this case only: \<^verbatim>\<open>max(dips)\<close> raises ValueError ``max() arg is an empty
  sequence'' (the source has no exception class of its own; this is its ``no threshold
  found''). Neither \<^verbatim>\<open>sturge\<close> nor \<^verbatim>\<open>getShadowPolygon\<close> returns labels then, whatever
  the segmentation, histogram and labelling routines are, as long as the histogram they
  build is the pair \<open>(values, base)\<close> on which the finder finds nothing.
\<close>

theorem threshold_not_found:
  assumes "findValley values base 2 = Inr []"
  shows "valley_threshold values base = Inl (ValueError ''max() arg is an empty sequence'')
    \<and> (concat M \<noteq> [] \<and>
        histogram (concat M) \<lceil>1.6 * (log 2 (real (length (concat M))) + 1)\<rceil> = (values, base)
        \<longrightarrow> sturge histogram label M = Inl (ValueError ''max() arg is an empty sequence''))
    \<and> (concat M \<noteq> [] \<and> 0 < sizPix \<and>
        histogram (concat (label2rgb (slic M \<lceil>real (length (concat M)) / real sizPix\<rceil>) M))
          \<lceil>1.6 * (log 2 (real_of_int \<lceil>real (length (concat M)) / real sizPix\<rceil>) + 1)\<rceil>
          = (values, base)
        \<longrightarrow> getShadowPolygon slic label2rgb histogram label M sizPix thres
              = Inl (ValueError ''max() arg is an empty sequence''))"
proof (intro conjI impI)
  show "valley_threshold values base = Inl (ValueError ''max() arg is an empty sequence'')"
    using assms by (rule valley_threshold_empty)
next
  assume h: "concat M \<noteq> [] \<and>
        histogram (concat M) \<lceil>1.6 * (log 2 (real (length (concat M))) + 1)\<rceil> = (values, base)"
  then show "sturge histogram label M = Inl (ValueError ''max() arg is an empty sequence'')"
    using valley_threshold_empty [OF assms] by (simp add: sturge_def Let_def)
next
  assume h: "concat M \<noteq> [] \<and> 0 < sizPix \<and>
        histogram (concat (label2rgb (slic M \<lceil>real (length (concat M)) / real sizPix\<rceil>) M))
          \<lceil>1.6 * (log 2 (real_of_int \<lceil>real (length (concat M)) / real sizPix\<rceil>) + 1)\<rceil>
          = (values, base)"
  then have "0 < length (concat M)" by simp
  then have mn: "\<lceil>real (length (concat M)) / real sizPix\<rceil> \<noteq> 0"
    using h by (intro ceiling_quotient_pos) simp_all
  show "getShadowPolygon slic label2rgb histogram label M sizPix thres
          = Inl (ValueError ''max() arg is an empty sequence'')"
    using h mn valley_threshold_empty [OF assms] by (simp add: getShadowPolygon_def Let_def)
qed

theorem threshold_not_found_witness:
  "findValley [0, 1] [0, 0.5, 1 :: real] 2 = Inr []
   \<and> valley_threshold [0, 1] [0, 0.5, 1]
       = Inl (ValueError ''max() arg is an empty sequence'')
   \<and> sturge one_pixel_histogram label_foreground [[0.5]]
       = Inl (ValueError ''max() arg is an empty sequence'')
   \<and> getShadowPolygon one_superpixel mean_of_one_superpixel one_pixel_histogram
         label_foreground [[0.5]] 1 0
       = Inl (ValueError ''max() arg is an empty sequence'')"
proof -
  have h: "findValley [0, 1] [0, 0.5, 1 :: real] 2 = Inr []"
    by code_simp
  show ?thesis
    using h threshold_not_found [OF h, of "[[0.5]]" one_pixel_histogram label_foreground 1
        mean_of_one_superpixel one_superpixel 0]
    by (simp add: one_pixel_histogram_def)
qed

section \<open>Properties of the enhancement entry point\<close>

lemma not_in_str_kuwahara [simp]:
  "\<not> in_str ''mean'' ''kuwahara''" "\<not> in_str ''mean-shift'' ''kuwahara''"
  "\<not> in_str ''median'' ''kuwahara''" "\<not> in_str ''anistropic'' ''kuwahara''"
  "\<not> in_str ''anistropic-diffusion'' ''kuwahara''" "\<not> in_str ''anisotropic'' ''kuwahara''"
  "\<not> in_str ''L0'' ''kuwahara''" "\<not> in_str ''L0smoothing'' ''kuwahara''"
  "\<not> in_str ''otsu'' ''kuwahara''"
  by (simp_all add: in_str_def sublist_code)

lemma not_in_str_median [simp]:
  "\<not> in_str ''mean'' ''median''" "\<not> in_str ''mean-shift'' ''median''"
  "\<not> in_str ''kuwahara'' ''median''" "\<not> in_str ''anistropic'' ''median''"
  "\<not> in_str ''anistropic-diffusion'' ''median''" "\<not> in_str ''anisotropic'' ''median''"
  "\<not> in_str ''L0'' ''median''" "\<not> in_str ''L0smoothing'' ''median''"
  "\<not> in_str ''otsu'' ''median''"
  by (simp_all add: in_str_def sublist_code)

lemma in_str_self [simp]: "in_str s s"
  by (simp add: in_str_def)

text \<open>
  C3, the claim as written fails. It names the fourth method \<open>anisotropic\<close>; the source
  and its docstring spell it \<open>anistropic\<close>, so the method name of the claim reaches the
  final assertion and no filter is applied. And names outside the claim's set are
  accepted: \<open>mean-shift\<close> selects the mean-shift filter.
\<close>

theorem enhance_shadows_anisotropic_rejected:
  "enhance_shadows [[0 :: real]] ''anisotropic'' []
     = Inl (AssertionError ''please provide a correct method'')
   \<and> enhance_shadows [[0 :: real]] ''mean-shift'' [] = Inr (Mean_shift_filter [[0]] 0.1)"
  by (simp add: enhance_shadows_def in_tuple_def kwarg_def)

text \<open>
  C3, amended. \<open>enhance_shadows\<close> applies the mean-shift filter for \<open>mean\<close> and
  \<open>mean-shift\<close>, the Kuwahara filter for \<open>kuwahara\<close>, the iterative median filter for
  \<open>median\<close>, anisotropic diffusion for \<open>anistropic\<close> and \<open>anistropic-diffusion\<close>, and
  L0 smoothing for \<open>L0\<close> and \<open>L0smoothing\<close>, each on the given image and with the
  keyword arguments or their defaults. For a method name that is none of these and is
  not a piece of the words \<open>kuwahara\<close> or \<open>median\<close>, it fails with the assertion error
  ``please provide a correct method'' and applies no filter.
\<close>

theorem enhance_shadows_dispatch:
  "(method \<in> {''mean'', ''mean-shift''} \<longrightarrow>
      enhance_shadows Shw method kwargs
        = Inr (Mean_shift_filter Shw (kwarg kwargs ''quantile'' 0.1)))
   \<and> (method = ''kuwahara'' \<longrightarrow>
      enhance_shadows Shw method kwargs = Inr (Kuwahara_filter Shw (kwarg kwargs ''tsize'' 5)))
   \<and> (method = ''median'' \<longrightarrow>
      enhance_shadows Shw method kwargs
        = Inr (Iterative_median_filter Shw (kwarg kwargs ''tsize'' 5) (kwarg kwargs ''loop'' 50)))
   \<and> (method \<in> {''anistropic'', ''anistropic-diffusion''} \<longrightarrow>
      enhance_shadows Shw method kwargs
        = Inr (Anistropic_diffusion_scalar Shw (kwarg kwargs ''iter'' 10)
                 (kwarg kwargs ''K'' 0.15) (kwarg kwargs ''s'' 0.25) (kwarg kwargs ''n'' 4)))
   \<and> (method \<in> {''L0'', ''L0smoothing''} \<longrightarrow>
      enhance_shadows Shw method kwargs
        = Inr (L0_smoothing Shw (kwarg kwargs ''lamb'' 0.02) (kwarg kwargs ''kappa'' 2)))
   \<and> (method \<notin> {''mean'', ''mean-shift'', ''anistropic'', ''anistropic-diffusion'',
                  ''L0'', ''L0smoothing''}
       \<and> \<not> sublist method ''kuwahara'' \<and> \<not> sublist method ''median'' \<longrightarrow>
      enhance_shadows Shw method kwargs
        = Inl (AssertionError ''please provide a correct method''))"
proof (intro conjI impI)
  assume "method \<in> {''mean'', ''mean-shift''}"
  then show "enhance_shadows Shw method kwargs
        = Inr (Mean_shift_filter Shw (kwarg kwargs ''quantile'' 0.1))"
    by (elim insertE emptyE) (simp_all add: enhance_shadows_def in_tuple_def)
next
  assume "method = ''kuwahara''"
  then show "enhance_shadows Shw method kwargs
        = Inr (Kuwahara_filter Shw (kwarg kwargs ''tsize'' 5))"
    by (simp add: enhance_shadows_def in_tuple_def)
next
  assume "method = ''median''"
  then show "enhance_shadows Shw method kwargs
        = Inr (Iterative_median_filter Shw (kwarg kwargs ''tsize'' 5) (kwarg kwargs ''loop'' 50))"
    by (simp add: enhance_shadows_def in_tuple_def)
next
  assume "method \<in> {''anistropic'', ''anistropic-diffusion''}"
  then show "enhance_shadows Shw method kwargs
        = Inr (Anistropic_diffusion_scalar Shw (kwarg kwargs ''iter'' 10)
                 (kwarg kwargs ''K'' 0.15) (kwarg kwargs ''s'' 0.25) (kwarg kwargs ''n'' 4))"
    by (elim insertE emptyE) (simp_all add: enhance_shadows_def in_tuple_def)
next
  assume "method \<in> {''L0'', ''L0smoothing''}"
  then show "enhance_shadows Shw method kwargs
        = Inr (L0_smoothing Shw (kwarg kwargs ''lamb'' 0.02) (kwarg kwargs ''kappa'' 2))"
    by (elim insertE emptyE) (simp_all add: enhance_shadows_def in_tuple_def)
next
  assume "method \<notin> {''mean'', ''mean-shift'', ''anistropic'', ''anistropic-diffusion'',
                  ''L0'', ''L0smoothing''}
       \<and> \<not> sublist method ''kuwahara'' \<and> \<not> sublist method ''median''"
  then show "enhance_shadows Shw method kwargs
        = Inl (AssertionError ''please provide a correct method'')"
    unfolding enhance_shadows_def in_tuple_def in_str_def by simp
qed

theorem enhance_shadows_dispatch_witness:
  "enhance_shadows [[0 :: real]] ''mean'' [(''quantile'', 0.2)] = Inr (Mean_shift_filter [[0]] 0.2)
   \<and> enhance_shadows [[0 :: real]] ''kuwahara'' [] = Inr (Kuwahara_filter [[0]] 5)
   \<and> enhance_shadows [[0 :: real]] ''median'' [(''loop'', 3)]
       = Inr (Iterative_median_filter [[0]] 5 3)
   \<and> enhance_shadows [[0 :: real]] ''anistropic'' []
       = Inr (Anistropic_diffusion_scalar [[0]] 10 0.15 0.25 4)
   \<and> enhance_shadows [[0 :: real]] ''L0'' [] = Inr (L0_smoothing [[0]] 0.02 2)
   \<and> enhance_shadows [[0 :: real]] ''otsu'' []
       = Inl (AssertionError ''please provide a correct method'')"
proof -
  note d = enhance_shadows_dispatch
  have m1: "''mean'' \<in> {''mean'', ''mean-shift''}" by simp
  have m4: "''anistropic'' \<in> {''anistropic'', ''anistropic-diffusion''}" by simp
  have m5: "''L0'' \<in> {''L0'', ''L0smoothing''}" by simp
  have m6: "''otsu'' \<notin> {''mean'', ''mean-shift'', ''anistropic'', ''anistropic-diffusion'',
                  ''L0'', ''L0smoothing''}
       \<and> \<not> sublist ''otsu'' ''kuwahara'' \<and> \<not> sublist ''otsu'' ''median''"
    by (simp add: sublist_code)
  have "enhance_shadows [[0 :: real]] ''mean'' [(''quantile'', 0.2)]
          = Inr (Mean_shift_filter [[0]] 0.2)"
    using d [of "''mean''" "[[0 :: real]]" "[(''quantile'', 0.2)]",
        THEN conjunct1, rule_format, OF m1]
    by (simp add: kwarg_def)
  moreover have "enhance_shadows [[0 :: real]] ''kuwahara'' [] = Inr (Kuwahara_filter [[0]] 5)"
    using d [of "''kuwahara''" "[[0 :: real]]" "[]",
        THEN conjunct2, THEN conjunct1, rule_format, OF refl]
    by (simp add: kwarg_def)
  moreover have "enhance_shadows [[0 :: real]] ''median'' [(''loop'', 3)]
       = Inr (Iterative_median_filter [[0]] 5 3)"
    using d [of "''median''" "[[0 :: real]]" "[(''loop'', 3)]",
        THEN conjunct2, THEN conjunct2, THEN conjunct1, rule_format, OF refl]
    by (simp add: kwarg_def)
  moreover have "enhance_shadows [[0 :: real]] ''anistropic'' []
       = Inr (Anistropic_diffusion_scalar [[0]] 10 0.15 0.25 4)"
    using d [of "''anistropic''" "[[0 :: real]]" "[]",
        THEN conjunct2, THEN conjunct2, THEN conjunct2, THEN conjunct1, rule_format, OF m4]
    by (simp add: kwarg_def)
  moreover have "enhance_shadows [[0 :: real]] ''L0'' [] = Inr (L0_smoothing [[0]] 0.02 2)"
    using d [of "''L0''" "[[0 :: real]]" "[]",
        THEN conjunct2, THEN conjunct2, THEN conjunct2, THEN conjunct2, THEN conjunct1,
        rule_format, OF m5]
    by (simp add: kwarg_def)
  moreover have "enhance_shadows [[0 :: real]] ''otsu'' []
       = Inl (AssertionError ''please provide a correct method'')"
    using d [of "''otsu''" "[[0 :: real]]" "[]",
        THEN conjunct2, THEN conjunct2, THEN conjunct2, THEN conjunct2, THEN conjunct2,
        rule_format, OF m6]
    by simp
  ultimately show ?thesis by blast
qed

section \<open>Properties of the affine optical-flow estimator\<close>







lemma np_amin_Min:
  assumes "xs \<noteq> []"
  shows "np_amin xs = Min (set xs)"
proof -
  obtain x ys where xs: "xs = x # ys" using assms by (cases xs) auto
  have "Min (set (x # ys)) = fold min ys x" by (rule Min.set_eq_fold)
  then show ?thesis unfolding xs np_amin_def by simp
qed






lemma iteration_estimate_invertible:
  "(1 + p0) * (1 + p3) - p2 * p1 \<noteq> 0 \<Longrightarrow>
   \<exists>A. iteration_estimate (p0, p1, p2, p3, p4, p5) snr = Inr (p4, p5, A, snr)"
  by (simp add: Let_def)





section \<open>Properties of the simple Lucas-Kanade estimator\<close>

lemma grid_step_flat:
  assumes "iIdx < length (flat sampleJ)"
    and "solve (flat sampleI ! iIdx) (flat sampleJ ! iIdx) = None"
  shows "flow_step solve sampleI sampleJ iIdx st = Inr st"
  using assms by (cases st) (simp add: Let_def)

lemma grid_step_raises:
  assumes "ndim sampleI > 1"
    and "solve (flat sampleI ! iIdx) (flat sampleJ ! iIdx) \<noteq> None"
  shows "\<exists>e. flow_step solve sampleI sampleJ iIdx (Ugrd, Tup vs, Ueig, Veig) = Inl e"
  using assms by (auto simp add: Let_def split: sum.splits)

declare flow_step.simps [simp del]

text \<open>
  On the grid path the loop fails at the first sample point whose window is not flat:
  the store into \<open>Vgrd\<close>, a tuple, cannot succeed.
\<close>

lemma grid_loop_raises:
  assumes "ndim sampleI > 1"
    and "\<exists>iIdx \<in> set idxs. solve (flat sampleI ! iIdx) (flat sampleJ ! iIdx) \<noteq> None"
  shows "\<exists>e. flow_loop solve sampleI sampleJ idxs (Ugrd, Tup vs, Ueig, Veig) = Inl e"
  using assms(2)
proof (induction idxs)
  case Nil
  then show ?case by simp
next
  case (Cons i rest)
  show ?case
  proof (cases "i < length (flat sampleJ)")
    case False
    then show ?thesis by (simp add: flow_step.simps)
  next
    case inside: True
    show ?thesis
    proof (cases "solve (flat sampleI ! i) (flat sampleJ ! i)")
      case None
      then have step: "flow_step solve sampleI sampleJ i (Ugrd, Tup vs, Ueig, Veig)
                         = Inr (Ugrd, Tup vs, Ueig, Veig)"
        using inside by (rule grid_step_flat [rotated])
      have "\<exists>iIdx \<in> set rest. solve (flat sampleI ! iIdx) (flat sampleJ ! iIdx) \<noteq> None"
        using Cons.prems None by auto
      then show ?thesis using Cons.IH step by simp
    next
      case (Some r)
      then obtain e where "flow_step solve sampleI sampleJ i (Ugrd, Tup vs, Ueig, Veig) = Inl e"
        using grid_step_raises [OF assms(1), of solve i sampleJ Ugrd vs Ueig Veig] by auto
      then show ?thesis by simp
    qed
  qed
qed

lemma grid_estimate_raises:
  assumes "iIdx < length (concat rowsI)"
    and "solve (concat rowsI ! iIdx) (flat sampleJ ! iIdx) \<noteq> None"
  shows "\<exists>e. simple_optical_flow solve (Grid rowsI) sampleJ = Inl e"
proof -
  have "\<exists>i \<in> set [0..<length (flat (Grid rowsI))].
          solve (flat (Grid rowsI) ! i) (flat (as_array sampleJ) ! i) \<noteq> None"
    using assms by (cases sampleJ) (auto intro!: bexI [of _ iIdx])
  then show ?thesis
    unfolding simple_optical_flow_def Let_def
    using grid_loop_raises [of "Grid rowsI" "[0..<length (flat (Grid rowsI))]" solve
        "as_array sampleJ"]
    by simp
qed

text \<open>
  C8. The claim: for every 2-D grid of sample points of shape \<open>(k, l)\<close> the estimator
  returns four \<open>(k, l)\<close> arrays without raising. The source departs from it, against its
  own docstring. On the one-by-one grid with a textured window it raises TypeError,
  since \<open>Vgrd\<close> is a tuple; and on a one-by-three grid of flat windows, where nothing is
  stored, it returns one-by-one arrays (\<^verbatim>\<open>len(sampleJ)\<close> counts the rows of the grid)
  and a tuple in place of the second array.
\<close>

theorem simple_optical_flow_grid_fails:
  "simple_optical_flow textured_window (Grid [[5]]) (Grid [[5]]) = Inl TypeError
   \<and> simple_optical_flow flat_window (Grid [[5, 6, 7]]) (Grid [[5, 6, 7]])
       = Inr (Arr [[0]], Tup [Arr [[0]]], Arr [[0]], Arr [[0]])"
  by (simp add: simple_optical_flow_def textured_window_def flat_window_def np_zeros_def
      Let_def upt_rec flow_step.simps)

section \<open>Properties of the Hough optical-flow estimator\<close>

lemma subsample_depends_on_draw:
  "sample_indices draw_first 4 0.5 = Inr [0, 1]
   \<and> sample_indices draw_last 4 0.5 = Inr [3, 2]"
  by (simp add: sample_indices_def draw_first_def draw_last_def np_round_def upt_rec)

text \<open>
  C10. For every \<open>sample_fraction\<close> of one or more, the estimator visits every pixel, in
  index order, and its result does not depend on the random draw: two runs on equal
  images and resolution, with whatever draws \<open>choice\<close> and \<open>choice'\<close> the random
  generator would have made, return the same displacement (or fail alike).
\<close>

theorem hough_deterministic:
  "1 \<le> sample_fraction \<Longrightarrow>
   sample_indices choice sample_size sample_fraction = Inr [0..<sample_size]
   \<and> hough_optical_flow np choice I1 I2 param_resol sample_fraction
     = hough_optical_flow np choice' I1 I2 param_resol sample_fraction"
  by (simp add: hough_optical_flow_def sample_indices_def)

theorem hough_deterministic_witness:
  "(1 :: real) \<le> 1
   \<and> sample_indices draw_first 4 1 = Inr [0, 1, 2, 3]
   \<and> hough_optical_flow real_numerics draw_first [[1, 2], [3, 4]] [[1, 2], [3, 5]] 3 1
     = hough_optical_flow real_numerics draw_last [[1, 2], [3, 4]] [[1, 2], [3, 5]] 3 1"
proof -
  have h: "(1 :: real) \<le> 1" by simp
  have u: "[0..<4] = [0, 1, 2, 3]" by (simp add: upt_rec)
  show ?thesis
    using hough_deterministic [OF h, of draw_first 4 real_numerics "[[1, 2], [3, 4]]"
        "[[1, 2], [3, 5]]" 3 draw_last] u
    by simp
qed

section \<open>Properties of the raster ridge and cast pairer\<close>

lemma np_round_of_int [simp]: "np_round (real_of_int k) = k"
  by (simp add: np_round_def)

lemma np_round_zero [simp]: "np_round 0 = 0"
  by (simp add: np_round_def)

lemma np_round_numeral [simp]:
  "np_round (numeral k) = numeral k" "np_round (- numeral k) = - numeral k"
  "np_round 1 = 1" "np_round (- 1) = - 1"
  using np_round_of_int [of "numeral k"] np_round_of_int [of "- numeral k"]
    np_round_of_int [of 1] np_round_of_int [of "- 1"]
  by simp_all



lemma trig_zero: "cos (radians 0) = 1" "sin (radians 0) = 0"
  by (simp_all add: radians_def)










lemma filter_index_Cons:
  "filter (\<lambda>k. (x # xs) ! k = v) [0..<Suc (length xs)]
     = (if x = v then [0] else []) @ map Suc (filter (\<lambda>k. xs ! k = v) [0..<length xs])"
proof -
  have u: "[0..<Suc (length xs)] = 0 # map Suc [0..<length xs]"
    by (simp add: upt_conv_Cons map_Suc_upt del: upt_Suc)
  have c: "(\<lambda>k. (x # xs) ! k = v) \<circ> Suc = (\<lambda>k. xs ! k = v)"
    by (rule ext) simp
  have m: "filter (\<lambda>k. (x # xs) ! k = v) (map Suc [0..<length xs])
             = map Suc (filter (\<lambda>k. xs ! k = v) [0..<length xs])"
    by (simp only: filter_map c)
  show ?thesis
    unfolding u filter.simps nth_Cons_0 m by simp
qed

lemma filter_index_first:
  "v \<in> set xs \<Longrightarrow>
   \<exists>rest. filter (\<lambda>k. xs ! k = v) [0..<length xs] = first_index v xs # rest"
proof (induction xs)
  case Nil
  then show ?case by simp
next
  case (Cons x xs)
  have e: "filter (\<lambda>k. (x # xs) ! k = v) [0..<length (x # xs)]
             = (if x = v then [0] else [])
               @ map Suc (filter (\<lambda>k. xs ! k = v) [0..<length xs])"
    unfolding length_Cons by (rule filter_index_Cons)
  show ?case
  proof (cases "x = v")
    case True
    have "filter (\<lambda>k. (x # xs) ! k = v) [0..<length (x # xs)]
            = first_index v (x # xs) # map Suc (filter (\<lambda>k. xs ! k = v) [0..<length xs])"
      unfolding e using True by (simp only: first_index.simps simp_thms if_True append.simps)
    then show ?thesis by blast
  next
    case False
    then have "v \<in> set xs" using Cons.prems by simp
    then obtain rest where r:
      "filter (\<lambda>k. xs ! k = v) [0..<length xs] = first_index v xs # rest"
      using Cons.IH by blast
    have "filter (\<lambda>k. (x # xs) ! k = v) [0..<length (x # xs)]
            = first_index v (x # xs) # map Suc rest"
      unfolding e r using False
      by (simp only: first_index.simps simp_thms if_False append.simps list.map)
    then show ?thesis by blast
  qed
qed

text \<open>
  The selection among the hits: the first of the list is the hit at the least distance
  from the ridge pixel, and among several at that distance the first in scan order.
\<close>

lemma closest_casted_first_nearest:
  assumes "hits \<noteq> []"
  shows "\<exists>rest. closest_casted hits ridgeI ridgeJ
           = hits ! np_argmin (map (pixel_dist ridgeI ridgeJ) hits) # rest"
proof (cases "length hits > 1")
  case True
  let ?dist = "map (pixel_dist ridgeI ridgeJ) hits"
  have ne: "?dist \<noteq> []" using assms by simp
  have mem: "np_amin ?dist \<in> set ?dist"
    unfolding np_amin_Min [OF ne] using ne by (intro Min_in) simp_all
  from filter_index_first [OF mem] obtain rest where r:
    "filter (\<lambda>k. ?dist ! k = np_amin ?dist) [0..<length ?dist]
       = first_index (np_amin ?dist) ?dist # rest" ..
  have "closest_casted hits ridgeI ridgeJ
          = map (\<lambda>k. hits ! k) (filter (\<lambda>k. ?dist ! k = np_amin ?dist) [0..<length ?dist])"
    using True unfolding closest_casted_def Let_def by (simp only: if_True)
  also have "\<dots> = hits ! first_index (np_amin ?dist) ?dist # map (\<lambda>k. hits ! k) rest"
    unfolding r by (simp only: list.map)
  finally show ?thesis unfolding np_argmin_def by blast
next
  case False
  then obtain h where h: "hits = [h]"
    using assms by (cases hits) auto
  show ?thesis
    unfolding h closest_casted_def np_argmin_def np_amin_def by simp
qed

lemma closest_casted_none: "closest_casted [] ridgeI ridgeJ = []"
  by (simp add: closest_casted_def)

lemma pair_pixel_no_hit:
  assumes "draw_line m n (kept_indices m n ridgeI ridgeJ (subAz ! ridgeI ! ridgeJ)) = Inr subCast"
    and "cast_hits subWhe cast subCast = []"
  shows "pair_pixel m n subWhe cast subAz labImin labJmin ridgeI ridgeJ x shadowIdx
           = Inr shadowIdx"
  using assms by (simp add: pair_pixel_def Let_def closest_casted_none)

text \<open>
  With at least one hit, the body of the loop stores \<open>x\<close> at the ridge pixel and \<open>-x\<close> at
  the nearest hit.
\<close>

lemma pair_pixel_stores:
  assumes "kept_indices m n ridgeI ridgeJ (subAz ! ridgeI ! ridgeJ) \<noteq> []"
    and "draw_line m n (kept_indices m n ridgeI ridgeJ (subAz ! ridgeI ! ridgeJ)) = Inr subCast"
    and "cast_hits subWhe cast subCast = hits" and "hits \<noteq> []"
    and "c = hits ! np_argmin (map (pixel_dist ridgeI ridgeJ) hits)"
  shows "pair_pixel m n subWhe cast subAz labImin labJmin ridgeI ridgeJ x shadowIdx
           = (case grid_set shadowIdx (ridgeI + labImin) (ridgeJ + labJmin) (int x) of
                Inl e \<Rightarrow> Inl e
              | Inr shadowIdx' \<Rightarrow>
                  grid_set shadowIdx' (fst c + labImin) (snd c + labJmin) (- int x))"
proof -
  obtain rest where "closest_casted hits ridgeI ridgeJ = c # rest"
    using closest_casted_first_nearest [OF assms(4)] assms(5) by blast
  then show ?thesis
    using assms(1,2,3) by (cases c) (simp add: pair_pixel_def Let_def split: sum.splits)
qed

lemma arange_0_3: "arange 0 3 = [0, 1, 2]"
  by code_simp

lemma kept_indices_ridge_1: "kept_indices 3 3 (Suc 0) 0 0 = [(1, 0), (0, 1)]"
  by (simp add: kept_indices_def cast_ray_def trig_zero cast_ray_dir_def arange_0_3 inside_def)

lemma kept_indices_ridge_2: "kept_indices 3 3 2 0 0 = [(2, 0), (1, 1), (0, 2)]"
  by (simp add: kept_indices_def cast_ray_def trig_zero cast_ray_dir_def arange_0_3 inside_def)

lemma draw_line_ridge_1:
  "draw_line 3 3 [(1, 0), (0, 1)]
     = Inr [[False, True, False], [True, False, False], [False, False, False]]"
  by (simp add: draw_line_def valid_index_def wrap_index_def upt_rec)

lemma draw_line_ridge_2:
  "draw_line 3 3 [(2, 0), (1, 1), (0, 2)]
     = Inr [[False, False, True], [False, True, False], [True, False, False]]"
  by (simp add: draw_line_def valid_index_def wrap_index_def upt_rec)

lemma cast_hits_ridge_1:
  "cast_hits [(0, 0), (0, 1), (0, 2), (1, 0), (1, 1), (1, 2), (2, 0), (2, 1), (2, 2)]
     [[False, True, True], [False, False, False], [False, False, False]]
     [[False, True, False], [True, False, False], [False, False, False]] = [(0, 1)]"
  by (simp add: cast_hits_def)

lemma cast_hits_ridge_2:
  "cast_hits [(0, 0), (0, 1), (0, 2), (1, 0), (1, 1), (1, 2), (2, 0), (2, 1), (2, 2)]
     [[False, True, True], [False, False, False], [False, False, False]]
     [[False, False, True], [False, True, False], [True, False, False]] = [(0, 2)]"
  by (simp add: cast_hits_def)

lemma pair_pixel_ridge_1:
  "pair_pixel 3 3 [(0, 0), (0, 1), (0, 2), (1, 0), (1, 1), (1, 2), (2, 0), (2, 1), (2, 2)]
     [[False, True, True], [False, False, False], [False, False, False]]
     [[0, 0, 0], [0, 0, 0], [0, 0, 0]] 0 0 1 0 0
     [[0, 0, 0, 0], [0, 0, 0, 0], [0, 0, 0, 0], [0, 0, 0, 0]]
   = Inr [[0, 0, 0, 0], [0, 0, 0, 0], [0, 0, 0, 0], [0, 0, 0, 0]]"
proof -
  have k: "kept_indices 3 3 1 0 ([[0, 0, 0], [0, 0, 0], [0, 0, 0]] ! 1 ! 0) = [(1, 0), (0, 1)]"
    by (simp add: kept_indices_ridge_1)
  have a1: "kept_indices 3 3 1 0 ([[0, 0, 0], [0, 0, 0], [0, 0, 0]] ! 1 ! 0) \<noteq> []"
    unfolding k by simp
  have a2: "draw_line 3 3 (kept_indices 3 3 1 0 ([[0, 0, 0], [0, 0, 0], [0, 0, 0]] ! 1 ! 0))
              = Inr [[False, True, False], [True, False, False], [False, False, False]]"
    unfolding k by (rule draw_line_ridge_1)
  have a4: "[(0, 1)] \<noteq> ([] :: (nat \<times> nat) list)" by simp
  have a5: "(0, 1) = [(0, 1)] ! np_argmin (map (pixel_dist 1 0) [(0, 1) :: nat \<times> nat])"
    by (simp add: np_argmin_def np_amin_def)
  have "pair_pixel 3 3 [(0, 0), (0, 1), (0, 2), (1, 0), (1, 1), (1, 2), (2, 0), (2, 1), (2, 2)]
     [[False, True, True], [False, False, False], [False, False, False]]
     [[0, 0, 0], [0, 0, 0], [0, 0, 0]] 0 0 1 0 0
     [[0, 0, 0, 0], [0, 0, 0, 0], [0, 0, 0, 0], [0, 0, 0, 0]]
   = (case grid_set [[0, 0, 0, 0], [0, 0, 0, 0], [0, 0, 0, 0], [0, 0, 0, 0]] (1 + 0) (0 + 0) (int 0) of
        Inl e \<Rightarrow> Inl e
      | Inr shadowIdx' \<Rightarrow>
          grid_set shadowIdx' (fst ((0, 1) :: nat \<times> nat) + 0) (snd ((0, 1) :: nat \<times> nat) + 0) (- int 0))"
    by (rule pair_pixel_stores [OF a1 a2 cast_hits_ridge_1 a4 a5])
  also have "\<dots> = Inr [[0, 0, 0, 0], [0, 0, 0, 0], [0, 0, 0, 0], [0, 0, 0, 0]]"
    by (simp add: grid_set_def)
  finally show ?thesis .
qed

lemma pair_pixel_ridge_2:
  "pair_pixel 3 3 [(0, 0), (0, 1), (0, 2), (1, 0), (1, 1), (1, 2), (2, 0), (2, 1), (2, 2)]
     [[False, True, True], [False, False, False], [False, False, False]]
     [[0, 0, 0], [0, 0, 0], [0, 0, 0]] 0 0 2 0 (Suc 0)
     [[0, 0, 0, 0], [0, 0, 0, 0], [0, 0, 0, 0], [0, 0, 0, 0]]
   = Inr [[0, 0, - 1, 0], [0, 0, 0, 0], [1, 0, 0, 0], [0, 0, 0, 0]]"
proof -
  have k: "kept_indices 3 3 2 0 ([[0, 0, 0], [0, 0, 0], [0, 0, 0]] ! 2 ! 0) = [(2, 0), (1, 1), (0, 2)]"
    by (simp add: kept_indices_ridge_2)
  have a1: "kept_indices 3 3 2 0 ([[0, 0, 0], [0, 0, 0], [0, 0, 0]] ! 2 ! 0) \<noteq> []"
    unfolding k by simp
  have a2: "draw_line 3 3 (kept_indices 3 3 2 0 ([[0, 0, 0], [0, 0, 0], [0, 0, 0]] ! 2 ! 0))
              = Inr [[False, False, True], [False, True, False], [True, False, False]]"
    unfolding k by (rule draw_line_ridge_2)
  have a4: "[(0, 2)] \<noteq> ([] :: (nat \<times> nat) list)" by simp
  have a5: "(0, 2) = [(0, 2)] ! np_argmin (map (pixel_dist 2 0) [(0, 2) :: nat \<times> nat])"
    by (simp add: np_argmin_def np_amin_def)
  have "pair_pixel 3 3 [(0, 0), (0, 1), (0, 2), (1, 0), (1, 1), (1, 2), (2, 0), (2, 1), (2, 2)]
     [[False, True, True], [False, False, False], [False, False, False]]
     [[0, 0, 0], [0, 0, 0], [0, 0, 0]] 0 0 2 0 (Suc 0)
     [[0, 0, 0, 0], [0, 0, 0, 0], [0, 0, 0, 0], [0, 0, 0, 0]]
   = (case grid_set [[0, 0, 0, 0], [0, 0, 0, 0], [0, 0, 0, 0], [0, 0, 0, 0]] (2 + 0) (0 + 0) (int (Suc 0)) of
        Inl e \<Rightarrow> Inl e
      | Inr shadowIdx' \<Rightarrow>
          grid_set shadowIdx' (fst ((0, 2) :: nat \<times> nat) + 0) (snd ((0, 2) :: nat \<times> nat) + 0) (- int (Suc 0)))"
    by (rule pair_pixel_stores [OF a1 a2 cast_hits_ridge_2 a4 a5])
  also have "\<dots> = Inr [[0, 0, - 1, 0], [0, 0, 0, 0], [1, 0, 0, 0], [0, 0, 0, 0]]"
    by (simp add: grid_set_def)
  finally show ?thesis .
qed

text \<open>
  C2. The claim: every ridge pixel whose cast line hits a receiver pixel gets exactly
  one recorded pair. The source departs from it for the first ridge pixel of every
  region. It numbers the ridge pixels from \<open>x = 0\<close> and records a pair by storing \<open>+x\<close>
  at the ridge pixel and \<open>-x\<close> at the nearest hit, ``the caster is the positive number,
  the casted is the negative number''; for \<open>x = 0\<close> both stores write zero, the
  background value. On a three-by-three sub-image under the azimuth zero, with ridge
  pixels \<open>(1, 0)\<close> and \<open>(2, 0)\<close> and receiver pixels \<open>(0, 1)\<close> and \<open>(0, 2)\<close>, the cast line
  of each ridge pixel hits one receiver pixel; after the loop the output holds the pair
  of the second ridge pixel only.
\<close>

theorem first_ridge_pixel_leaves_no_record:
  "cast_hits [(0, 0), (0, 1), (0, 2), (1, 0), (1, 1), (1, 2), (2, 0), (2, 1), (2, 2)]
     [[False, True, True], [False, False, False], [False, False, False]]
     [[False, True, False], [True, False, False], [False, False, False]] = [(0, 1)]
   \<and> pair_pixel 3 3 [(0, 0), (0, 1), (0, 2), (1, 0), (1, 1), (1, 2), (2, 0), (2, 1), (2, 2)]
       [[False, True, True], [False, False, False], [False, False, False]]
       [[0, 0, 0], [0, 0, 0], [0, 0, 0]] 0 0 1 0 0
       [[0, 0, 0, 0], [0, 0, 0, 0], [0, 0, 0, 0], [0, 0, 0, 0]]
     = Inr [[0, 0, 0, 0], [0, 0, 0, 0], [0, 0, 0, 0], [0, 0, 0, 0]]
   \<and> pair_pixels 3 3 [(0, 0), (0, 1), (0, 2), (1, 0), (1, 1), (1, 2), (2, 0), (2, 1), (2, 2)]
       [[False, True, True], [False, False, False], [False, False, False]]
       [[0, 0, 0], [0, 0, 0], [0, 0, 0]] 0 0 [(1, 0), (2, 0)] 0
       [[0, 0, 0, 0], [0, 0, 0, 0], [0, 0, 0, 0], [0, 0, 0, 0]]
     = Inr [[0, 0, - 1, 0], [0, 0, 0, 0], [1, 0, 0, 0], [0, 0, 0, 0]]"
  unfolding pair_pixels.simps pair_pixel_ridge_1 cast_hits_ridge_1 sum.case pair_pixel_ridge_2
  by simp


end
